theory Spec2Isabelle
  imports Main "HOL-Library.Word"
begin

section \<open>Data model of routecheck (main.cpp)\<close>

text \<open>
  An \<open>IN_ADDR\<close> is the 32-bit \<open>S_un.S_addr\<close> of the address; gateways are compared
  on this word (main.cpp line 188).
\<close>

type_synonym IN_ADDR = "32 word"

text \<open>The local struct of \<open>main\<close> (lines 41-45).\<close>

record NETWORK_NODE =
  hostname :: string
  ip :: IN_ADDR
  replied :: bool

text \<open>
  What is written to \<open>std::cout\<close>, piece by piece. \<open>Usage\<close> stands for the fixed text
  that \<open>printHelp\<close> writes (lines 27-37).
\<close>

datatype out = Text string | Num int | Endl | Usage

text \<open>
  The calls made to the ICMP API, in order, each with what it returned:
  \<open>CreateFile ok\<close> is \<open>IcmpCreateFile\<close> (\<open>ok\<close> false for \<open>INVALID_HANDLE_VALUE\<close>);
  \<open>SendEcho dst ttl tmo r\<close> is \<open>IcmpSendEcho\<close> to \<open>dst\<close> with \<open>ip_options.Ttl = ttl\<close> and
  timeout \<open>tmo\<close>, where \<open>r = None\<close> stands for \<open>reply_count = 0\<close> and \<open>r = Some a\<close> for a
  positive \<open>reply_count\<close> with \<open>a\<close> the \<open>Address\<close> field of the reply buffer;
  \<open>CloseHandle\<close> is \<open>IcmpCloseHandle\<close>.
\<close>

datatype icmp_call =
    CreateFile bool
  | SendEcho IN_ADDR "8 word" "32 word" "IN_ADDR option"
  | CloseHandle

text \<open>
  The platform functions that main.cpp calls and does not define. They are parameters of
  the model:
  \<^item> \<open>InetPtonA P str buf\<close> is \<open>InetPtonA(AF_INET, str, &buf)\<close>: the return code and the
    content of the buffer afterwards (the code tests the return code against 1);
  \<^item> \<open>atoi P str\<close> is the C library's \<open>atoi\<close>;
  \<^item> \<open>IcmpCreateFile P\<close> tells whether a valid handle is returned;
  \<^item> \<open>IcmpSendEcho P history dst ttl tmo\<close> is the outcome of one echo request, which
    may depend on every API call made before it.
  The \<open>Ttl\<close> field of \<open>IP_OPTION_INFORMATION\<close> is a \<open>UCHAR\<close> and the \<open>Timeout\<close> argument of
  \<open>IcmpSendEcho\<close> a \<open>DWORD\<close> in the Windows headers that main.cpp includes, so the
  \<open>int\<close> values assigned to them are converted to 8 and 32 bits.
\<close>

record platform =
  InetPtonA :: "string \<Rightarrow> IN_ADDR \<Rightarrow> int \<times> IN_ADDR"
  atoi :: "string \<Rightarrow> int"
  IcmpCreateFile :: bool
  IcmpSendEcho :: "icmp_call list \<Rightarrow> IN_ADDR \<Rightarrow> 8 word \<Rightarrow> 32 word \<Rightarrow> IN_ADDR option"

text \<open>
  The variables of \<open>main\<close> (lines 46-50), with the output written so far and the API
  calls made so far.
\<close>

record state =
  verbose :: bool
  destination :: NETWORK_NODE
  gateways :: "NETWORK_NODE list"
  timeout :: int
  max_hops :: int
  cout :: "out list"
  icmp :: "icmp_call list"

text \<open>
  \<open>args[k]\<close> on a \<open>std::vector\<close> with \<open>k \<ge> args.size()\<close> is undefined behaviour; the
  model stops there with the index that was read.
\<close>

datatype fault = OutOfBounds nat

section \<open>Argument parsing (lines 46-113)\<close>

definition empty_node :: NETWORK_NODE where
  "empty_node = \<lparr>hostname = '''', ip = 0, replied = False\<rparr>"

definition init_state :: state where
  "init_state =
     \<lparr>verbose = False, destination = empty_node, gateways = [],
      timeout = 10000, max_hops = 30, cout = [], icmp = []\<rparr>"

definition print :: "out list \<Rightarrow> state \<Rightarrow> state" where
  "print xs s = s\<lparr>cout := cout s @ xs\<rparr>"

definition vprint :: "out list \<Rightarrow> state \<Rightarrow> state" where
  "vprint xs s = (if verbose s then print xs s else s)"

definition arg_at :: "string list \<Rightarrow> nat \<Rightarrow> fault + string" where
  "arg_at args k = (if k < length args then Inr (args ! k) else Inl (OutOfBounds k))"

text \<open>Lines 67-82. The result carries the value of \<open>a\<close> at the end of the loop body.\<close>

definition parse_d :: "platform \<Rightarrow> string list \<Rightarrow> nat \<Rightarrow> state \<Rightarrow> fault + nat \<times> state" where
  "parse_d P args a s =
     (case arg_at args (a + 1) of
        Inl e \<Rightarrow> Inl e
      | Inr v \<Rightarrow>
          (let s1 = vprint [Text ''Destination: '', Text v, Endl] s;
               (rc, addr) = InetPtonA P v (ip (destination s1));
               s2 = s1\<lparr>destination := (destination s1)\<lparr>ip := addr\<rparr>\<rparr>;
               s3 = (if rc \<noteq> 1
                     then vprint [Text ''Destination address is invalid '', Text v, Endl, Usage] s2
                     else s2\<lparr>destination := (destination s2)\<lparr>hostname := v\<rparr>\<rparr>)
           in Inr (a + 1, s3)))"

text \<open>Lines 83-100: \<open>push_back\<close> stands after the \<open>if\<close>/\<open>else\<close>, on both paths.\<close>

definition parse_gw :: "platform \<Rightarrow> string list \<Rightarrow> nat \<Rightarrow> state \<Rightarrow> fault + nat \<times> state" where
  "parse_gw P args a s =
     (case arg_at args (a + 1) of
        Inl e \<Rightarrow> Inl e
      | Inr v \<Rightarrow>
          (let s1 = vprint [Text ''Gateway: '', Text v, Endl] s;
               (rc, addr) = InetPtonA P v (ip empty_node);
               node = empty_node\<lparr>ip := addr\<rparr>;
               s2 = (if rc \<noteq> 1
                     then vprint [Text ''Destination address is invalid '', Text v, Endl, Usage] s1
                     else s1);
               node' = (if rc \<noteq> 1 then node else node\<lparr>hostname := v\<rparr>)
           in Inr (a + 1, s2\<lparr>gateways := gateways s2 @ [node']\<rparr>)))"

text \<open>
  Lines 101-106: the verbose message reads \<open>args[a + 1]\<close>; then \<open>a++\<close> comes before
  \<open>atoi(args[a + 1])\<close>, which so reads the second token after the flag.
\<close>

definition parse_ttl :: "platform \<Rightarrow> string list \<Rightarrow> nat \<Rightarrow> state \<Rightarrow> fault + nat \<times> state" where
  "parse_ttl P args a s =
     (case (if verbose s
            then (case arg_at args (a + 1) of
                    Inl e \<Rightarrow> Inl e
                  | Inr v \<Rightarrow> Inr (print [Text ''Specified TTL '', Text v] s))
            else Inr s) of
        Inl e \<Rightarrow> Inl e
      | Inr s1 \<Rightarrow>
          (let a1 = a + 1 in
           case arg_at args (a1 + 1) of
             Inl e \<Rightarrow> Inl e
           | Inr v \<Rightarrow> Inr (a1, s1\<lparr>max_hops := atoi P v\<rparr>)))"

text \<open>Lines 107-112, of the same shape.\<close>

definition parse_timeout :: "platform \<Rightarrow> string list \<Rightarrow> nat \<Rightarrow> state \<Rightarrow> fault + nat \<times> state" where
  "parse_timeout P args a s =
     (case (if verbose s
            then (case arg_at args (a + 1) of
                    Inl e \<Rightarrow> Inl e
                  | Inr v \<Rightarrow> Inr (print [Text ''Specified Timeout '', Text v] s))
            else Inr s) of
        Inl e \<Rightarrow> Inl e
      | Inr s1 \<Rightarrow>
          (let a1 = a + 1 in
           case arg_at args (a1 + 1) of
             Inl e \<Rightarrow> Inl e
           | Inr v \<Rightarrow> Inr (a1, s1\<lparr>timeout := atoi P v\<rparr>)))"

text \<open>The body of the loop of line 63, for \<open>a < args.size()\<close>.\<close>

definition parse_arg :: "platform \<Rightarrow> string list \<Rightarrow> nat \<Rightarrow> state \<Rightarrow> fault + nat \<times> state" where
  "parse_arg P args a s =
     (if args ! a = ''-v'' then Inr (a, s\<lparr>verbose := True\<rparr>)
      else if args ! a = ''-help'' then Inr (a, print [Usage] s)
      else if args ! a = ''-d'' then parse_d P args a s
      else if args ! a = ''-gw'' then parse_gw P args a s
      else if args ! a = ''-ttl'' then parse_ttl P args a s
      else if args ! a = ''-timeout'' then parse_timeout P args a s
      else Inr (a, s))"

text \<open>
  \<open>for (int a = 0; a < args.size(); a++)\<close>: it terminates because the body never
  lowers \<open>a\<close>.
\<close>

function parse_loop :: "platform \<Rightarrow> string list \<Rightarrow> nat \<Rightarrow> state \<Rightarrow> fault + state" where
  "parse_loop P args a s =
     (if a < length args
      then (case parse_arg P args a s of
              Inl e \<Rightarrow> Inl e
            | Inr (a', s') \<Rightarrow> parse_loop P args (Suc a') s')
      else Inr s)"
  by pat_completeness auto
termination
proof (relation "measure (\<lambda>(P, args, a, s). length args - a)")
  show "wf (measure (\<lambda>(P, args, a, s). length args - a))" by simp
next
  fix P :: platform and args :: "string list" and a a' :: nat and s s' :: state and x
  assume "a < length args" and "parse_arg P args a s = Inr x" and "(a', s') = x"
  then have "a \<le> a'"
    by (auto simp: parse_arg_def parse_d_def parse_gw_def parse_ttl_def parse_timeout_def
          arg_at_def Let_def split: if_splits sum.splits prod.splits)
  with \<open>a < length args\<close>
  show "((P, args, Suc a', s'), (P, args, a, s)) \<in> measure (\<lambda>(P, args, a, s). length args - a)"
    by simp
qed

declare parse_loop.simps [simp del]

text \<open>
  Lines 59-113: \<open>verbose\<close> is set beforehand when any argument is \<open>-v\<close> (line 60),
  then the loop runs from \<open>a = 0\<close>.
\<close>

definition parse_args :: "platform \<Rightarrow> string list \<Rightarrow> fault + state" where
  "parse_args P args =
     parse_loop P args 0
       (if ''-v'' \<in> set args then init_state\<lparr>verbose := True\<rparr> else init_state)"

section \<open>Probing (lines 129-196)\<close>

text \<open>One \<open>IcmpSendEcho\<close> call (lines 153 and 179) with the given \<open>Ttl\<close>.\<close>

definition probe :: "platform \<Rightarrow> 8 word \<Rightarrow> state \<Rightarrow> IN_ADDR option \<times> state" where
  "probe P ttl s =
     (let dst = ip (destination s);
          tmo = (word_of_int (timeout s) :: 32 word);
          r = IcmpSendEcho P (icmp s) dst ttl tmo
      in (r, s\<lparr>icmp := icmp s @ [SendEcho dst ttl tmo r]\<rparr>))"

text \<open>The loop over the gateways (lines 186-193) for the reply address \<open>addr\<close> at hop \<open>i\<close>.\<close>

function check_gateways :: "IN_ADDR \<Rightarrow> int \<Rightarrow> nat \<Rightarrow> state \<Rightarrow> state" where
  "check_gateways addr i gi s =
     (if gi < length (gateways s)
      then check_gateways addr i (Suc gi)
             (if addr = ip (gateways s ! gi)
              then vprint [Text ''Gateway '', Text (hostname (gateways s ! gi)),
                           Text '' replied at hop '', Num i, Endl]
                     (s\<lparr>gateways := (gateways s)[gi := (gateways s ! gi)\<lparr>replied := True\<rparr>]\<rparr>)
              else s)
      else s)"
  by pat_completeness auto
termination
  by (relation "measure (\<lambda>(addr, i, gi, s). length (gateways s) - gi)")
     (auto simp: vprint_def print_def)

declare check_gateways.simps [simp del]

text \<open>
  The hop sweep \<open>for (int i = 1; i < max_hops; i++)\<close> (lines 176-195). It terminates
  because nothing in the loop assigns \<open>max_hops\<close> (shown below, before the
  termination proof).
\<close>

function sweep :: "platform \<Rightarrow> int \<Rightarrow> state \<Rightarrow> state" where
  "sweep P i s =
     (if i < max_hops s
      then sweep P (i + 1)
             (case probe P (word_of_int i) s of
                (None, s1) \<Rightarrow> s1
              | (Some addr, s1) \<Rightarrow> check_gateways addr i 0 s1)
      else s)"
  by pat_completeness auto

section \<open>Report and the whole program (lines 115-205)\<close>

definition gateway_line :: "NETWORK_NODE \<Rightarrow> out list" where
  "gateway_line gw =
     [Text ''Gateway:'', Text (hostname gw), Text '':'',
      Text (if replied gw then ''replied'' else ''no reply''), Endl]"

definition report :: "state \<Rightarrow> out list" where
  "report s =
     [Text ''Destination:'', Text (hostname (destination s)), Text '':replied'', Endl]
     @ concat (map gateway_line (gateways s))"

text \<open>
  Lines 171-205, reached once the destination has replied: the hop sweep when there is a
  gateway, the report, \<open>IcmpCloseHandle\<close> and exit code 0.
\<close>

definition sweep_and_report :: "platform \<Rightarrow> state \<Rightarrow> int \<times> state" where
  "sweep_and_report P s =
     (let s1 = (if length (gateways s) > 0 then sweep P 1 s else s);
          s2 = print (report s1) s1
      in (0, s2\<lparr>icmp := icmp s2 @ [CloseHandle]\<rparr>))"

text \<open>
  Lines 137-170, reached with a valid handle: the reachability probe with
  \<open>ip_options.Ttl = max_hops\<close>; without a reply the handle is closed and the exit code
  is 4.
\<close>

definition reachability :: "platform \<Rightarrow> state \<Rightarrow> int \<times> state" where
  "reachability P s =
     (let (r, s1) = probe P (word_of_int (max_hops s)) s;
          s2 = vprint
                 (if r \<noteq> None
                  then [Text ''Destination '', Text (hostname (destination s1)),
                        Text '' replied'', Endl]
                  else [Text ''Destination '', Text (hostname (destination s1)),
                        Text '' did not reply within '', Num (timeout s1),
                        Text ''ms'', Endl]) s1
      in if r = None
         then (4, s2\<lparr>icmp := icmp s2 @ [CloseHandle]\<rparr>)
         else sweep_and_report P (s2\<lparr>destination := (destination s2)\<lparr>replied := True\<rparr>\<rparr>))"

text \<open>
  Lines 115-205: everything after the parsing loop; the exit code and the last state.
\<close>

definition run :: "platform \<Rightarrow> state \<Rightarrow> int \<times> state" where
  "run P s =
     (if hostname (destination s) = ''''
      then (2, vprint [Usage] (print [Text ''No destination specified'', Endl] s))
      else
        (let s1 = (if length (gateways s) = 0
                   then vprint [Usage] (print [Text ''No gateways specified'', Endl] s)
                   else s)
         in if \<not> IcmpCreateFile P
            then (3, vprint [Text ''Could not create ICMP handle'', Endl]
                       (s1\<lparr>icmp := icmp s1 @ [CreateFile False]\<rparr>))
            else reachability P (s1\<lparr>icmp := icmp s1 @ [CreateFile True]\<rparr>)))"

text \<open>
  \<open>main\<close>: \<open>argv\<close> is the whole vector, program name first, and \<open>argc\<close> its length.
  The result is the exit code with the last state, or the fault of an out-of-range read.
\<close>

definition main :: "platform \<Rightarrow> string list \<Rightarrow> fault + int \<times> state" where
  "main P argv =
     (if length argv < 2 then Inr (1, print [Usage] init_state)
      else (case parse_args P (tl argv) of
              Inl e \<Rightarrow> Inl e
            | Inr s \<Rightarrow> Inr (run P s)))"

section \<open>Reading the trace of API calls\<close>

text \<open>
  The echo requests of a trace, in the order they were sent. In a run the first one is
  the reachability probe of line 153 and the others are those of the hop sweep (line 179).
\<close>

fun is_echo :: "icmp_call \<Rightarrow> bool" where
  "is_echo (SendEcho dst ttl tmo r) = True"
| "is_echo c = False"

fun echo_ttl :: "icmp_call \<Rightarrow> 8 word" where
  "echo_ttl (SendEcho dst ttl tmo r) = ttl"
| "echo_ttl c = 0"

fun echo_reply :: "icmp_call \<Rightarrow> IN_ADDR option" where
  "echo_reply (SendEcho dst ttl tmo r) = r"
| "echo_reply c = None"

definition echoes :: "icmp_call list \<Rightarrow> icmp_call list" where
  "echoes tr = filter is_echo tr"

definition sweep_echoes :: "icmp_call list \<Rightarrow> icmp_call list" where
  "sweep_echoes tr = tl (echoes tr)"

text \<open>The addresses that answered the echo requests of a trace.\<close>

definition responders :: "icmp_call list \<Rightarrow> IN_ADDR list" where
  "responders tr = List.map_filter echo_reply tr"

section \<open>The Gateway Matcher as the specification words it\<close>

text \<open>
  Section 4.3 of the specification: for every node of the gateway set whose address equals
  the observed one, set its \<open>replied\<close> flag. \<open>check_gateways\<close> above is the code;
  \<open>gateways_check_gateways\<close> below shows that the code computes this.
\<close>

definition observe :: "IN_ADDR \<Rightarrow> NETWORK_NODE list \<Rightarrow> NETWORK_NODE list" where
  "observe addr gws = map (\<lambda>g. if addr = ip g then g\<lparr>replied := True\<rparr> else g) gws"

text \<open>
  \<open>node_le g g'\<close>: the node \<open>g'\<close> is \<open>g\<close> unchanged, or \<open>g\<close> with its flag set. Host name
  and address are the same, and a flag that is set stays set.
\<close>

definition node_le :: "NETWORK_NODE \<Rightarrow> NETWORK_NODE \<Rightarrow> bool" where
  "node_le g g' = (g' = g \<or> g' = g\<lparr>replied := True\<rparr>)"

text \<open>
  What the reachability probe of line 153 returns when the run gets that far from the
  state \<open>s\<close> left by the parsing loop: it follows the \<open>IcmpCreateFile\<close> call.
\<close>

definition first_probe :: "platform \<Rightarrow> state \<Rightarrow> IN_ADDR option" where
  "first_probe P s =
     IcmpSendEcho P (icmp s @ [CreateFile True]) (ip (destination s))
       (word_of_int (max_hops s)) (word_of_int (timeout s))"

text \<open>
  The values of the counter \<open>i\<close> for which the hop sweep sends a probe from the state
  \<open>s\<close>: none without a gateway (line 172), else those of the loop of line 176.
\<close>

definition sweep_range :: "state \<Rightarrow> int list" where
  "sweep_range s = (if gateways s = [] then [] else [1..max_hops s - 1])"

text \<open>
  A state in which no API call has been made and no node has its flag set: what the
  parsing loop starts from and, as \<open>parse_args_fresh\<close> shows, what it ends in.
\<close>

definition fresh :: "state \<Rightarrow> bool" where
  "fresh s =
     (icmp s = [] \<and> \<not> replied (destination s) \<and> list_all (\<lambda>g. \<not> replied g) (gateways s))"

text \<open>
  The state in which the reachability probe is sent (lines 122-135, with a valid handle):
  the notice when there is no gateway, and the \<open>IcmpCreateFile\<close> call in the trace.
\<close>

definition opened :: "state \<Rightarrow> state" where
  "opened s =
     (if length (gateways s) = 0
      then vprint [Usage] (print [Text ''No gateways specified'', Endl] s)
      else s)\<lparr>icmp := icmp s @ [CreateFile True]\<rparr>"

section \<open>A reference platform for concrete runs\<close>

text \<open>
  Executable stand-ins for the library functions, used where a run is evaluated on
  concrete arguments. \<open>ref_atoi\<close> follows the C library's description of \<open>atoi\<close>: white
  space is skipped, then an optional sign and the decimal digits that follow are read, and
  the value is 0 when there is no digit. \<open>ref_InetPtonA\<close> accepts four decimal parts of
  one to three digits, each at most 255, separated by dots, stores the address in network
  byte order and returns 1; on anything else it returns 0 and leaves the buffer as it was.
\<close>

definition is_digit :: "char \<Rightarrow> bool" where
  "is_digit c = (c \<in> set ''0123456789'')"

definition is_space :: "char \<Rightarrow> bool" where
  "is_space c = (c \<in> set [CHR '' '', CHR 0x09, CHR 0x0A, CHR 0x0B, CHR 0x0C, CHR 0x0D])"

definition digit_val :: "char \<Rightarrow> nat" where
  "digit_val c = of_char c - 48"

definition decimal :: "string \<Rightarrow> nat" where
  "decimal ds = foldl (\<lambda>n c. 10 * n + digit_val c) 0 ds"

definition ref_atoi :: "string \<Rightarrow> int" where
  "ref_atoi str =
     (case dropWhile is_space str of
        [] \<Rightarrow> 0
      | c # cs \<Rightarrow>
          if c = CHR ''-'' then - int (decimal (takeWhile is_digit cs))
          else if c = CHR ''+'' then int (decimal (takeWhile is_digit cs))
          else int (decimal (takeWhile is_digit (c # cs))))"

fun split_dots :: "string \<Rightarrow> string list" where
  "split_dots [] = [[]]"
| "split_dots (c # cs) =
     (if c = CHR ''.'' then [] # split_dots cs
      else (case split_dots cs of [] \<Rightarrow> [[c]] | p # ps \<Rightarrow> (c # p) # ps))"

definition octet :: "string \<Rightarrow> nat option" where
  "octet p =
     (if p \<noteq> [] \<and> length p \<le> 3 \<and> list_all is_digit p \<and> decimal p \<le> 255
      then Some (decimal p) else None)"

definition ref_InetPtonA :: "string \<Rightarrow> IN_ADDR \<Rightarrow> int \<times> IN_ADDR" where
  "ref_InetPtonA str buf =
     (case map octet (split_dots str) of
        [Some b0, Some b1, Some b2, Some b3] \<Rightarrow>
          (1, of_nat (b0 + 256 * b1 + 65536 * b2 + 16777216 * b3))
      | _ \<Rightarrow> (0, buf))"

definition ref_platform ::
  "bool \<Rightarrow> (icmp_call list \<Rightarrow> IN_ADDR \<Rightarrow> 8 word \<Rightarrow> 32 word \<Rightarrow> IN_ADDR option) \<Rightarrow> platform" where
  "ref_platform ok echo =
     \<lparr>InetPtonA = ref_InetPtonA, atoi = ref_atoi, IcmpCreateFile = ok, IcmpSendEcho = echo\<rparr>"

text \<open>
  Three simulated networks: one in which nothing answers, one in which the destination
  answers every probe, and a path of three hops on which the first router answers as
  192.168.0.1, the second as 10.0.0.5, and the destination itself from the third hop on.
\<close>

definition silent_net :: "icmp_call list \<Rightarrow> IN_ADDR \<Rightarrow> 8 word \<Rightarrow> 32 word \<Rightarrow> IN_ADDR option" where
  "silent_net h dst ttl tmo = None"

definition direct_net :: "icmp_call list \<Rightarrow> IN_ADDR \<Rightarrow> 8 word \<Rightarrow> 32 word \<Rightarrow> IN_ADDR option" where
  "direct_net h dst ttl tmo = Some dst"

definition path_net :: "icmp_call list \<Rightarrow> IN_ADDR \<Rightarrow> 8 word \<Rightarrow> 32 word \<Rightarrow> IN_ADDR option" where
  "path_net h dst ttl tmo =
     (if ttl = 1 then Some 0x0100A8C0 else if ttl = 2 then Some 0x0500000A else Some dst)"

section \<open>Termination of the hop sweep\<close>

lemma check_gateways_max_hops: "max_hops (check_gateways addr i gi s) = max_hops s"
proof (induction addr i gi s rule: check_gateways.induct)
  case (1 addr i gi s)
  then show ?case
    by (subst check_gateways.simps) (simp add: vprint_def print_def)
qed

termination sweep
  by (relation "measure (\<lambda>(P, i, s). nat (max_hops s - i))")
     (auto simp: probe_def Let_def check_gateways_max_hops split: option.splits)

declare sweep.simps [simp del]

section \<open>What the gateway loop and the hop sweep compute\<close>

lemma gateways_check_gateways_from:
  "gateways (check_gateways addr i gi s) = take gi (gateways s) @ observe addr (drop gi (gateways s))"
proof (induction addr i gi s rule: check_gateways.induct)
  case (1 addr i gi s)
  show ?case
  proof (cases "gi < length (gateways s)")
    case True
    with 1 show ?thesis
      by (subst check_gateways.simps)
         (simp add: vprint_def print_def observe_def take_Suc_conv_app_nth
            Cons_nth_drop_Suc [symmetric])
  next
    case False
    then show ?thesis
      by (subst check_gateways.simps) (simp add: observe_def)
  qed
qed

lemma gateways_check_gateways:
  "gateways (check_gateways addr i 0 s) = observe addr (gateways s)"
  by (simp add: gateways_check_gateways_from)

lemma check_gateways_fields:
  "max_hops (check_gateways addr i gi s) = max_hops s \<and>
   timeout (check_gateways addr i gi s) = timeout s \<and>
   destination (check_gateways addr i gi s) = destination s \<and>
   verbose (check_gateways addr i gi s) = verbose s \<and>
   icmp (check_gateways addr i gi s) = icmp s"
proof (induction addr i gi s rule: check_gateways.induct)
  case (1 addr i gi s)
  then show ?case
    by (subst (1 2 3 4 5) check_gateways.simps) (simp add: vprint_def print_def)
qed

lemma sweep_fields:
  "max_hops (sweep P i s) = max_hops s \<and> timeout (sweep P i s) = timeout s \<and>
   destination (sweep P i s) = destination s \<and> verbose (sweep P i s) = verbose s"
proof (induction P i s rule: sweep.induct)
  case (1 P i s)
  show ?case
  proof (cases "i < max_hops s")
    case True
    with 1 show ?thesis
      by (subst (1 2 3 4) sweep.simps)
         (simp add: probe_def Let_def check_gateways_fields split: option.splits)
  next
    case False
    then show ?thesis by (subst (1 2 3 4) sweep.simps) simp
  qed
qed

lemma responders_Cons:
  "responders (c # tr) = (case echo_reply c of None \<Rightarrow> responders tr | Some a \<Rightarrow> a # responders tr)"
  by (cases "echo_reply c") (simp_all add: responders_def map_filter_simps)

lemma sweep_trace:
  "\<exists>ext. icmp (sweep P i s) = icmp s @ ext \<and> list_all is_echo ext \<and>
         map echo_ttl ext = map word_of_int [i..max_hops s - 1] \<and>
         gateways (sweep P i s) = foldl (\<lambda>gs a. observe a gs) (gateways s) (responders ext)"
proof (induction P i s rule: sweep.induct)
  case (1 P i s)
  show ?case
  proof (cases "i < max_hops s")
    case True
    define r where "r = fst (probe P (word_of_int i) s)"
    define s1 where "s1 = snd (probe P (word_of_int i) s)"
    define s2 where "s2 = (case r of None \<Rightarrow> s1 | Some addr \<Rightarrow> check_gateways addr i 0 s1)"
    define e where "e = SendEcho (ip (destination s)) (word_of_int i) (word_of_int (timeout s)) r"
    have s1: "icmp s1 = icmp s @ [e]" "gateways s1 = gateways s" "max_hops s1 = max_hops s"
      by (simp_all add: s1_def r_def e_def probe_def Let_def)
    have s2: "icmp s2 = icmp s @ [e]" "max_hops s2 = max_hops s"
      "gateways s2 = (case r of None \<Rightarrow> gateways s | Some a \<Rightarrow> observe a (gateways s))"
      by (simp_all add: s2_def s1 check_gateways_fields gateways_check_gateways split: option.splits)
    have unf: "sweep P i s = sweep P (i + 1) s2"
      using True unfolding s2_def s1_def r_def
      by (subst sweep.simps) (simp add: case_prod_beta)
    have "\<exists>ext. icmp (sweep P (i + 1) s2) = icmp s2 @ ext \<and> list_all is_echo ext \<and>
         map echo_ttl ext = map word_of_int [i + 1..max_hops s2 - 1] \<and>
         gateways (sweep P (i + 1) s2)
           = foldl (\<lambda>gs a. observe a gs) (gateways s2) (responders ext)"
      using 1 [OF True] unfolding s2_def s1_def r_def by (simp add: case_prod_beta)
    then obtain ext where ext: "icmp (sweep P (i + 1) s2) = icmp s2 @ ext" "list_all is_echo ext"
        "map echo_ttl ext = map word_of_int [i + 1..max_hops s2 - 1]"
        "gateways (sweep P (i + 1) s2)
           = foldl (\<lambda>gs a. observe a gs) (gateways s2) (responders ext)"
      by blast
    have up: "[i..max_hops s - 1] = i # [i + 1..max_hops s - 1]"
      using True by (simp add: upto_rec1)
    have "icmp (sweep P i s) = icmp s @ (e # ext)"
      by (simp add: unf ext s2)
    moreover have "list_all is_echo (e # ext)"
      by (simp add: ext e_def)
    moreover have "map echo_ttl (e # ext) = map word_of_int [i..max_hops s - 1]"
      by (simp add: up ext s2 e_def)
    moreover have "gateways (sweep P i s)
        = foldl (\<lambda>gs a. observe a gs) (gateways s) (responders (e # ext))"
      by (simp add: unf ext s2 responders_Cons e_def split: option.splits)
    ultimately show ?thesis by blast
  next
    case False
    then have "sweep P i s = s" by (subst sweep.simps) simp
    moreover have "[i..max_hops s - 1] = []" using False by simp
    ultimately show ?thesis by (simp add: responders_def map_filter_simps)
  qed
qed

lemma observe_length: "length (observe a gws) = length gws"
  by (simp add: observe_def)


section \<open>What the parsing loop keeps\<close>

lemma parse_loop_invariant:
  assumes "parse_loop P args a s = Inr t" and "I s"
    and step: "\<And>a s a' s'. I s \<Longrightarrow> parse_arg P args a s = Inr (a', s') \<Longrightarrow> I s'"
  shows "I t"
  using assms
proof (induction P args a s rule: parse_loop.induct)
  case (1 P args a s)
  show ?case
  proof (cases "a < length args")
    case True
    with "1.prems"(1) obtain a' s' where pa: "parse_arg P args a s = Inr (a', s')"
      and rest: "parse_loop P args (Suc a') s' = Inr t"
      by (subst (asm) parse_loop.simps) (auto split: sum.splits)
    have "I s'" using "1.prems"(3) [OF "1.prems"(2) pa] .
    from "1.IH" [OF True pa refl rest this "1.prems"(3)] show ?thesis .
  next
    case False
    with "1.prems" show ?thesis
      by (subst (asm) parse_loop.simps) simp
  qed
qed

lemma parse_arg_fresh:
  "fresh s \<Longrightarrow> parse_arg P args a s = Inr (a', s') \<Longrightarrow> fresh s'"
  by (auto simp: fresh_def parse_arg_def parse_d_def parse_gw_def parse_ttl_def parse_timeout_def
        arg_at_def Let_def vprint_def print_def empty_node_def
        split: if_splits sum.splits prod.splits)

lemma parse_args_fresh: "parse_args P args = Inr s \<Longrightarrow> fresh s"
proof -
  assume "parse_args P args = Inr s"
  then have "parse_loop P args 0
       (if ''-v'' \<in> set args then init_state\<lparr>verbose := True\<rparr> else init_state) = Inr s"
    by (simp add: parse_args_def)
  moreover have "fresh (if ''-v'' \<in> set args then init_state\<lparr>verbose := True\<rparr> else init_state)"
    by (simp add: fresh_def init_state_def empty_node_def)
  ultimately show "fresh s"
    by (rule parse_loop_invariant) (rule parse_arg_fresh)
qed

section \<open>The phases of a run\<close>

lemma vprint_fields [simp]:
  "icmp (vprint xs s) = icmp s" "gateways (vprint xs s) = gateways s"
  "destination (vprint xs s) = destination s" "max_hops (vprint xs s) = max_hops s"
  "timeout (vprint xs s) = timeout s" "verbose (vprint xs s) = verbose s"
  by (simp_all add: vprint_def print_def)

lemma print_fields [simp]:
  "icmp (print xs s) = icmp s" "gateways (print xs s) = gateways s"
  "destination (print xs s) = destination s" "max_hops (print xs s) = max_hops s"
  "timeout (print xs s) = timeout s" "verbose (print xs s) = verbose s"
  "cout (print xs s) = cout s @ xs"
  by (simp_all add: print_def)

lemma sweep_and_report_trace:
  "\<exists>ext. fst (sweep_and_report P s) = 0 \<and>
      icmp (snd (sweep_and_report P s)) = icmp s @ ext @ [CloseHandle] \<and>
      list_all is_echo ext \<and>
      map echo_ttl ext = map word_of_int (sweep_range s) \<and>
      gateways (snd (sweep_and_report P s))
        = foldl (\<lambda>gs a. observe a gs) (gateways s) (responders ext)"
proof (cases "gateways s = []")
  case True
  then have "sweep_and_report P s = (0, (print (report s) s)\<lparr>icmp := icmp s @ [CloseHandle]\<rparr>)"
    by (simp add: sweep_and_report_def Let_def)
  with True show ?thesis
    by (intro exI [of _ "[]"]) (simp add: responders_def map_filter_simps sweep_range_def)
next
  case False
  define t where "t = sweep P 1 s"
  obtain ext where ext: "icmp t = icmp s @ ext" "list_all is_echo ext"
     "map echo_ttl ext = map word_of_int [1..max_hops s - 1]"
     "gateways t = foldl (\<lambda>gs a. observe a gs) (gateways s) (responders ext)"
    using sweep_trace [of P 1 s] unfolding t_def by blast
  from False have "sweep_and_report P s = (0, (print (report t) t)\<lparr>icmp := icmp t @ [CloseHandle]\<rparr>)"
    by (simp add: sweep_and_report_def Let_def t_def)
  with False ext show ?thesis
    by (intro exI [of _ ext]) (simp add: sweep_range_def)
qed

lemma sweep_and_report_fields:
  "destination (snd (sweep_and_report P s)) = destination s"
  "max_hops (snd (sweep_and_report P s)) = max_hops s"
  "timeout (snd (sweep_and_report P s)) = timeout s"
  "\<exists>pre. cout (snd (sweep_and_report P s)) = pre @ report (snd (sweep_and_report P s))"
  by (simp_all add: sweep_and_report_def Let_def sweep_fields report_def)


lemma reachability_timeout:
  assumes "IcmpSendEcho P (icmp s) (ip (destination s)) (word_of_int (max_hops s))
             (word_of_int (timeout s)) = None"
  shows "fst (reachability P s) = 4"
    and "icmp (snd (reachability P s)) =
           icmp s @ [SendEcho (ip (destination s)) (word_of_int (max_hops s))
                       (word_of_int (timeout s)) None, CloseHandle]"
    and "gateways (snd (reachability P s)) = gateways s"
    and "destination (snd (reachability P s)) = destination s"
    and "max_hops (snd (reachability P s)) = max_hops s"
    and "timeout (snd (reachability P s)) = timeout s"
  using assms by (simp_all add: reachability_def probe_def Let_def)

lemma reachability_reply:
  assumes "IcmpSendEcho P (icmp s) (ip (destination s)) (word_of_int (max_hops s))
             (word_of_int (timeout s)) = Some a"
  shows "\<exists>ext. fst (reachability P s) = 0 \<and>
      icmp (snd (reachability P s)) =
         icmp s @ [SendEcho (ip (destination s)) (word_of_int (max_hops s))
                     (word_of_int (timeout s)) (Some a)] @ ext @ [CloseHandle] \<and>
      list_all is_echo ext \<and>
      map echo_ttl ext = map word_of_int (sweep_range s) \<and>
      gateways (snd (reachability P s))
        = foldl (\<lambda>gs a. observe a gs) (gateways s) (responders ext)"
    and "destination (snd (reachability P s)) = (destination s)\<lparr>replied := True\<rparr>"
    and "max_hops (snd (reachability P s)) = max_hops s"
    and "timeout (snd (reachability P s)) = timeout s"
    and "\<exists>pre. cout (snd (reachability P s)) = pre @ report (snd (reachability P s))"
proof -
  define e where "e = SendEcho (ip (destination s)) (word_of_int (max_hops s))
                     (word_of_int (timeout s)) (Some a)"
  define t where "t = (vprint [Text ''Destination '', Text (hostname (destination s)),
                        Text '' replied'', Endl] (s\<lparr>icmp := icmp s @ [e]\<rparr>))
                      \<lparr>destination := (destination s)\<lparr>replied := True\<rparr>\<rparr>"
  have t: "icmp t = icmp s @ [e]" "gateways t = gateways s" "max_hops t = max_hops s"
    "timeout t = timeout s" "destination t = (destination s)\<lparr>replied := True\<rparr>"
    by (simp_all add: t_def)
  have r: "reachability P s = sweep_and_report P t"
    using assms by (simp add: reachability_def probe_def Let_def t_def e_def)
  show "\<exists>ext. fst (reachability P s) = 0 \<and>
      icmp (snd (reachability P s)) =
         icmp s @ [SendEcho (ip (destination s)) (word_of_int (max_hops s))
                     (word_of_int (timeout s)) (Some a)] @ ext @ [CloseHandle] \<and>
      list_all is_echo ext \<and>
      map echo_ttl ext = map word_of_int (sweep_range s) \<and>
      gateways (snd (reachability P s))
        = foldl (\<lambda>gs a. observe a gs) (gateways s) (responders ext)"
  proof -
    have sr: "sweep_range t = sweep_range s" by (simp add: sweep_range_def t)
    obtain ext where "fst (sweep_and_report P t) = 0"
      "icmp (snd (sweep_and_report P t)) = icmp t @ ext @ [CloseHandle]"
      "list_all is_echo ext" "map echo_ttl ext = map word_of_int (sweep_range t)"
      "gateways (snd (sweep_and_report P t))
         = foldl (\<lambda>gs a. observe a gs) (gateways t) (responders ext)"
      using sweep_and_report_trace [of P t] by blast
    then show ?thesis
      by (intro exI [of _ ext]) (simp add: r t e_def sr)
  qed
  show "destination (snd (reachability P s)) = (destination s)\<lparr>replied := True\<rparr>"
    "max_hops (snd (reachability P s)) = max_hops s"
    "timeout (snd (reachability P s)) = timeout s"
    "\<exists>pre. cout (snd (reachability P s)) = pre @ report (snd (reachability P s))"
    by (simp_all add: r sweep_and_report_fields t)
qed

lemma opened_fields:
  "icmp (opened s) = icmp s @ [CreateFile True]" "gateways (opened s) = gateways s"
  "destination (opened s) = destination s" "max_hops (opened s) = max_hops s"
  "timeout (opened s) = timeout s"
  by (simp_all add: opened_def)

lemma run_no_destination:
  assumes "hostname (destination s) = ''''"
  shows "fst (run P s) = 2" and "icmp (snd (run P s)) = icmp s"
    and "gateways (snd (run P s)) = gateways s" and "destination (snd (run P s)) = destination s"
    and "max_hops (snd (run P s)) = max_hops s" and "timeout (snd (run P s)) = timeout s"
  using assms by (simp_all add: run_def)

lemma run_create_failed:
  assumes "hostname (destination s) \<noteq> ''''" and "\<not> IcmpCreateFile P"
  shows "fst (run P s) = 3" and "icmp (snd (run P s)) = icmp s @ [CreateFile False]"
    and "gateways (snd (run P s)) = gateways s" and "destination (snd (run P s)) = destination s"
    and "max_hops (snd (run P s)) = max_hops s" and "timeout (snd (run P s)) = timeout s"
  using assms by (simp_all add: run_def Let_def)

lemma run_opened:
  assumes "hostname (destination s) \<noteq> ''''" and "IcmpCreateFile P"
  shows "run P s = reachability P (opened s)"
  using assms by (simp add: run_def Let_def opened_def)

lemma run_unreachable:
  assumes "hostname (destination s) \<noteq> ''''" and "IcmpCreateFile P" and "first_probe P s = None"
  shows "fst (run P s) = 4"
    and "icmp (snd (run P s)) =
           icmp s @ [CreateFile True,
             SendEcho (ip (destination s)) (word_of_int (max_hops s)) (word_of_int (timeout s)) None,
             CloseHandle]"
    and "gateways (snd (run P s)) = gateways s" and "destination (snd (run P s)) = destination s"
    and "max_hops (snd (run P s)) = max_hops s" and "timeout (snd (run P s)) = timeout s"
proof -
  have "IcmpSendEcho P (icmp (opened s)) (ip (destination (opened s)))
          (word_of_int (max_hops (opened s))) (word_of_int (timeout (opened s))) = None"
    using assms(3) by (simp add: first_probe_def opened_fields)
  from reachability_timeout [OF this]
  show "fst (run P s) = 4"
    and "icmp (snd (run P s)) =
           icmp s @ [CreateFile True,
             SendEcho (ip (destination s)) (word_of_int (max_hops s)) (word_of_int (timeout s)) None,
             CloseHandle]"
    and "gateways (snd (run P s)) = gateways s" and "destination (snd (run P s)) = destination s"
    and "max_hops (snd (run P s)) = max_hops s" and "timeout (snd (run P s)) = timeout s"
    by (simp_all add: run_opened [OF assms(1,2)] opened_fields)
qed

lemma run_reachable:
  assumes "hostname (destination s) \<noteq> ''''" and "IcmpCreateFile P" and "first_probe P s = Some a"
  shows "\<exists>ext. fst (run P s) = 0 \<and>
      icmp (snd (run P s)) =
         icmp s @ [CreateFile True,
           SendEcho (ip (destination s)) (word_of_int (max_hops s)) (word_of_int (timeout s)) (Some a)]
         @ ext @ [CloseHandle] \<and>
      list_all is_echo ext \<and>
      map echo_ttl ext = map word_of_int (sweep_range s) \<and>
      gateways (snd (run P s)) = foldl (\<lambda>gs a. observe a gs) (gateways s) (responders ext)"
    and "destination (snd (run P s)) = (destination s)\<lparr>replied := True\<rparr>"
    and "max_hops (snd (run P s)) = max_hops s"
    and "timeout (snd (run P s)) = timeout s"
    and "\<exists>pre. cout (snd (run P s)) = pre @ report (snd (run P s))"
proof -
  have "IcmpSendEcho P (icmp (opened s)) (ip (destination (opened s)))
          (word_of_int (max_hops (opened s))) (word_of_int (timeout (opened s))) = Some a"
    using assms(3) by (simp add: first_probe_def opened_fields)
  note rr = reachability_reply [OF this]
  have sr: "sweep_range (opened s) = sweep_range s" by (simp add: sweep_range_def opened_fields)
  from rr(1) obtain ext where "fst (reachability P (opened s)) = 0"
      "icmp (snd (reachability P (opened s))) =
         icmp (opened s) @ [SendEcho (ip (destination (opened s))) (word_of_int (max_hops (opened s)))
                     (word_of_int (timeout (opened s))) (Some a)] @ ext @ [CloseHandle]"
      "list_all is_echo ext" "map echo_ttl ext = map word_of_int (sweep_range (opened s))"
      "gateways (snd (reachability P (opened s)))
        = foldl (\<lambda>gs a. observe a gs) (gateways (opened s)) (responders ext)"
    by blast
  then show "\<exists>ext. fst (run P s) = 0 \<and>
      icmp (snd (run P s)) =
         icmp s @ [CreateFile True,
           SendEcho (ip (destination s)) (word_of_int (max_hops s)) (word_of_int (timeout s)) (Some a)]
         @ ext @ [CloseHandle] \<and>
      list_all is_echo ext \<and>
      map echo_ttl ext = map word_of_int (sweep_range s) \<and>
      gateways (snd (run P s)) = foldl (\<lambda>gs a. observe a gs) (gateways s) (responders ext)"
    by (intro exI [of _ ext]) (simp add: run_opened [OF assms(1,2)] opened_fields sr)
  from rr(2-5)
  show "destination (snd (run P s)) = (destination s)\<lparr>replied := True\<rparr>"
    and "max_hops (snd (run P s)) = max_hops s"
    and "timeout (snd (run P s)) = timeout s"
    and "\<exists>pre. cout (snd (run P s)) = pre @ report (snd (run P s))"
    by (simp_all add: run_opened [OF assms(1,2)] opened_fields)
qed

section \<open>The whole program\<close>

lemma main_no_args: "length argv < 2 \<Longrightarrow> main P argv = Inr (1, print [Usage] init_state)"
  by (simp add: main_def)

lemma main_run:
  assumes "main P argv = Inr (code, s')" and "2 \<le> length argv"
  shows "\<exists>s. parse_args P (tl argv) = Inr s \<and> fresh s \<and> run P s = (code, s')"
proof -
  from assms obtain s where s: "parse_args P (tl argv) = Inr s" and r: "run P s = (code, s')"
    by (auto simp: main_def split: sum.splits)
  from s have "fresh s" by (rule parse_args_fresh)
  with s r show ?thesis by blast
qed



lemma run_outcome:
  assumes "fresh s" and "run P s = (code, s')"
  shows "hostname (destination s') = hostname (destination s) \<and>
         ip (destination s') = ip (destination s) \<and>
         max_hops s' = max_hops s \<and> timeout s' = timeout s \<and>
         (code = 2 \<and> hostname (destination s) = '''' \<and> icmp s' = [] \<or>
          code = 3 \<and> hostname (destination s) \<noteq> '''' \<and> \<not> IcmpCreateFile P \<and>
            icmp s' = [CreateFile False] \<or>
          code = 4 \<and> hostname (destination s) \<noteq> '''' \<and> IcmpCreateFile P \<and>
            first_probe P s = None \<and>
            icmp s' = [CreateFile True,
              SendEcho (ip (destination s)) (word_of_int (max_hops s)) (word_of_int (timeout s)) None,
              CloseHandle] \<or>
          code = 0 \<and> hostname (destination s) \<noteq> '''' \<and> IcmpCreateFile P \<and>
            (\<exists>a ext. first_probe P s = Some a \<and> list_all is_echo ext \<and>
               icmp s' = CreateFile True
                 # SendEcho (ip (destination s)) (word_of_int (max_hops s))
                     (word_of_int (timeout s)) (Some a)
                 # ext @ [CloseHandle]) \<and>
            (\<exists>pre. cout s' = pre @ report s'))"
proof -
  have i: "icmp s = []" using assms(1) by (simp add: fresh_def)
  show ?thesis
  proof (cases "hostname (destination s) = ''''")
    case True
    from run_no_destination [OF True, of P] assms(2) i True show ?thesis by simp
  next
    case h: False
    show ?thesis
    proof (cases "IcmpCreateFile P")
      case False
      from run_create_failed [OF h False] assms(2) i h False show ?thesis by simp
    next
      case c: True
      show ?thesis
      proof (cases "first_probe P s")
        case None
        from run_unreachable [OF h c None] assms(2) i h c None show ?thesis by simp
      next
        case (Some a)
        note rr = run_reachable [OF h c Some]
        from rr(1) obtain ext where "fst (run P s) = 0" "list_all is_echo ext"
          "icmp (snd (run P s)) =
             icmp s @ [CreateFile True,
               SendEcho (ip (destination s)) (word_of_int (max_hops s)) (word_of_int (timeout s)) (Some a)]
             @ ext @ [CloseHandle]"
          by blast
        then have "code = 0" and "\<exists>a ext. first_probe P s = Some a \<and> list_all is_echo ext \<and>
               icmp s' = CreateFile True
                 # SendEcho (ip (destination s)) (word_of_int (max_hops s))
                     (word_of_int (timeout s)) (Some a)
                 # ext @ [CloseHandle]"
          using assms(2) i Some by auto
        with rr(2-5) assms(2) h c show ?thesis by simp
      qed
    qed
  qed
qed

lemma count_list_echoes:
  "list_all is_echo ext \<Longrightarrow> count_list ext CloseHandle = 0 \<and> count_list ext (CreateFile b) = 0"
  by (auto simp: count_list_0_iff list_all_iff)

section \<open>Flags are only ever set\<close>

lemma node_le_refl: "node_le g g"
  by (simp add: node_le_def)

lemma node_le_trans: "node_le g g' \<Longrightarrow> node_le g' g'' \<Longrightarrow> node_le g g''"
  by (auto simp: node_le_def)

lemma node_le_replied: "node_le g g' \<Longrightarrow> replied g \<Longrightarrow> replied g'"
  by (auto simp: node_le_def)

lemma observe_node_le: "list_all2 node_le gws (observe a gws)"
  by (simp add: observe_def list_all2_conv_all_nth node_le_def)

lemma list_all2_node_le_trans:
  "list_all2 node_le xs ys \<Longrightarrow> list_all2 node_le ys zs \<Longrightarrow> list_all2 node_le xs zs"
  by (rule list_all2_trans [OF node_le_trans])

lemma foldl_observe_node_le: "list_all2 node_le gws (foldl (\<lambda>gs a. observe a gs) gws as)"
proof (induction as arbitrary: gws)
  case Nil
  then show ?case by (simp add: list_all2_conv_all_nth node_le_refl)
next
  case (Cons a as)
  have "list_all2 node_le gws (observe a gws)" by (rule observe_node_le)
  moreover have "list_all2 node_le (observe a gws) (foldl (\<lambda>gs a. observe a gs) (observe a gws) as)"
    by (rule Cons)
  ultimately show ?case by (simp add: list_all2_node_le_trans)
qed

lemma check_gateways_node_le:
  "list_all2 node_le (gateways s) (gateways (check_gateways addr i gi s))"
proof -
  have "list_all2 node_le (take gi (gateways s) @ drop gi (gateways s))
          (take gi (gateways s) @ observe addr (drop gi (gateways s)))"
    by (intro list_all2_appendI observe_node_le) (simp add: list_all2_conv_all_nth node_le_refl)
  then show ?thesis by (simp add: gateways_check_gateways_from)
qed

lemma sweep_node_le: "list_all2 node_le (gateways s) (gateways (sweep P i s))"
  using sweep_trace [of P i s] by (auto simp: foldl_observe_node_le)

lemma observe_idem: "observe a (observe a gws) = observe a gws"
  by (simp add: observe_def)

lemma run_node_le:
  "list_all2 node_le (gateways s) (gateways (snd (run P s))) \<and>
   node_le (destination s) (destination (snd (run P s)))"
proof (cases "hostname (destination s) = ''''")
  case True
  then show ?thesis
    by (simp add: run_no_destination list_all2_conv_all_nth node_le_refl)
next
  case h: False
  show ?thesis
  proof (cases "IcmpCreateFile P")
    case False
    with h show ?thesis
      by (simp add: run_create_failed list_all2_conv_all_nth node_le_refl)
  next
    case c: True
    show ?thesis
    proof (cases "first_probe P s")
      case None
      with h c show ?thesis
        by (simp add: run_unreachable list_all2_conv_all_nth node_le_refl)
    next
      case (Some a)
      from run_reachable [OF h c Some] show ?thesis
        by (auto simp: foldl_observe_node_le node_le_def)
    qed
  qed
qed

section \<open>Which gateways end up marked\<close>






section \<open>Evaluation on concrete arguments\<close>

lemmas ref_eval = ref_platform_def ref_atoi_def ref_InetPtonA_def octet_def is_digit_def
  is_space_def decimal_def digit_val_def silent_net_def direct_net_def path_net_def

lemmas parse_eval = parse_args_def parse_loop.simps parse_arg_def parse_d_def parse_gw_def
  parse_ttl_def parse_timeout_def arg_at_def init_state_def empty_node_def vprint_def print_def
  Let_def

lemmas run_eval = main_def run_def reachability_def sweep_and_report_def probe_def
  sweep.simps check_gateways.simps report_def gateway_line_def

text \<open>
  Four runs, evaluated: the destination 10.0.0.9 does not answer; no ICMP handle can be
  had; the destination is three hops away and is itself named as a gateway; and the same
  path with the gateway 10.0.0.5 named twice and the gateway 10.0.0.7 once. The last two
  set \<open>max_hops\<close> to 3 with \<open>-ttl x 3\<close>, the value being read from the second token
  after the flag.
\<close>

lemma ex_unreachable:
  "main (ref_platform True silent_net) [''routecheck'', ''-d'', ''10.0.0.9'']
     = Inr (4, \<lparr>verbose = False,
                 destination = \<lparr>hostname = ''10.0.0.9'', ip = 0x0900000A, replied = False\<rparr>,
                 gateways = [], timeout = 10000, max_hops = 30,
                 cout = [Text ''No gateways specified'', Endl],
                 icmp = [CreateFile True, SendEcho 0x0900000A 30 10000 None, CloseHandle]\<rparr>)"
  by (simp add: run_eval parse_eval ref_eval)

lemma ex_no_handle:
  "main (ref_platform False direct_net) [''routecheck'', ''-d'', ''10.0.0.9'']
     = Inr (3, \<lparr>verbose = False,
                 destination = \<lparr>hostname = ''10.0.0.9'', ip = 0x0900000A, replied = False\<rparr>,
                 gateways = [], timeout = 10000, max_hops = 30,
                 cout = [Text ''No gateways specified'', Endl],
                 icmp = [CreateFile False]\<rparr>)"
  by (simp add: run_eval parse_eval ref_eval)

lemma ex_path:
  "main (ref_platform True path_net)
      [''routecheck'', ''-d'', ''10.0.0.9'', ''-gw'', ''10.0.0.9'', ''-ttl'', ''x'', ''3'']
     = Inr (0, \<lparr>verbose = False,
                 destination = \<lparr>hostname = ''10.0.0.9'', ip = 0x0900000A, replied = True\<rparr>,
                 gateways = [\<lparr>hostname = ''10.0.0.9'', ip = 0x0900000A, replied = False\<rparr>],
                 timeout = 10000, max_hops = 3,
                 cout = [Text ''Destination:'', Text ''10.0.0.9'', Text '':replied'', Endl,
                         Text ''Gateway:'', Text ''10.0.0.9'', Text '':'', Text ''no reply'', Endl],
                 icmp = [CreateFile True, SendEcho 0x0900000A 3 10000 (Some 0x0900000A),
                         SendEcho 0x0900000A 1 10000 (Some 0x0100A8C0),
                         SendEcho 0x0900000A 2 10000 (Some 0x0500000A), CloseHandle]\<rparr>)"
  by (simp add: run_eval parse_eval ref_eval)


section \<open>Claims about argument parsing\<close>

text \<open>
  C1. The claim: \<open>-ttl\<close> followed by an integer token sets \<open>max_hops\<close> to the value of the
  token that follows the flag immediately, and \<open>-timeout\<close> likewise sets the timeout.
  The code increments \<open>a\<close> before it reads \<open>args[a + 1]\<close> (lines 104-105 and 110-111), so
  the value comes from the second token after the flag. For the arguments
  \<open>-d 10.0.0.1 -ttl 5 -timeout 250 -v\<close> and any platform, \<open>max_hops\<close> is \<open>atoi\<close> of
  \<open>-timeout\<close> and the timeout is \<open>atoi\<close> of \<open>-v\<close>, not 5 and 250.
\<close>

theorem ttl_value_read_one_token_late:
  "map_sum id (\<lambda>s. (max_hops s, timeout s))
     (parse_args P [''-d'', ''10.0.0.1'', ''-ttl'', ''5'', ''-timeout'', ''250'', ''-v''])
   = Inr (atoi P ''-timeout'', atoi P ''-v'')"
  by (simp add: parse_eval case_prod_beta)

text \<open>
  C2. The claim: a \<open>-gw\<close> flag whose argument is not a valid IPv4 literal adds nothing to
  the gateway sequence. In the code \<open>gateways.push_back(node)\<close> (line 98) stands after
  the \<open>if\<close>/\<open>else\<close>, so the node is appended on the invalid path too, with an empty
  host name: for \<open>-d 10.0.0.1 -gw bogus\<close> the gateway sequence has one entry, and the
  report of the run has a gateway line for it.
\<close>

theorem invalid_gateway_appended:
  "ref_InetPtonA ''bogus'' 0 = (0, 0) \<and>
   map_sum id gateways
     (parse_args (ref_platform True direct_net) [''-d'', ''10.0.0.1'', ''-gw'', ''bogus''])
   = Inr [\<lparr>hostname = '''', ip = 0, replied = False\<rparr>] \<and>
   map_sum id (\<lambda>(code, s'). (code, report s'))
     (main (ref_platform True direct_net) [''routecheck'', ''-d'', ''10.0.0.1'', ''-gw'', ''bogus''])
   = Inr (0, [Text ''Destination:'', Text ''10.0.0.1'', Text '':replied'', Endl,
              Text ''Gateway:'', Text '''', Text '':'', Text ''no reply'', Endl])"
  by (simp add: run_eval parse_eval ref_eval)

text \<open>
  C10. The claim: parsing reads only indices within the argument vector, also when a
  flag that takes a value is the last token. The code reads \<open>args[a + 1]\<close> without a
  check: with \<open>-d\<close> or \<open>-gw\<close> last it reads index 1 of a vector of size 1, with \<open>-ttl\<close> or
  \<open>-timeout\<close> last (and not verbose) index 2, and \<open>-ttl 5\<close> as the last two tokens reads
  index 2 of a vector of size 2.
\<close>

theorem out_of_bounds_read:
  "main P [''routecheck'', ''-d''] = Inl (OutOfBounds 1) \<and>
   main P [''routecheck'', ''-gw''] = Inl (OutOfBounds 1) \<and>
   main P [''routecheck'', ''-ttl''] = Inl (OutOfBounds 2) \<and>
   main P [''routecheck'', ''-timeout''] = Inl (OutOfBounds 2) \<and>
   main P [''routecheck'', ''-ttl'', ''5''] = Inl (OutOfBounds 2)"
  by (simp add: main_def parse_eval)

section \<open>Claims about the run\<close>

text \<open>
  C5. Whatever the gateways are, if the reachability probe gets no reply then it is the
  only echo request of the run (no probe of the hop sweep is sent), the gateways are as
  parsing left them, each with its flag false, and the exit code is 4.
\<close>

theorem unreachable_exit_4:
  assumes "2 \<le> length argv" and "parse_args P (tl argv) = Inr s"
    and "hostname (destination s) \<noteq> ''''" and "IcmpCreateFile P"
    and "first_probe P s = None"
  shows "\<exists>s'. main P argv = Inr (4, s') \<and>
           echoes (icmp s') = [SendEcho (ip (destination s)) (word_of_int (max_hops s))
                                 (word_of_int (timeout s)) None] \<and>
           sweep_echoes (icmp s') = [] \<and>
           gateways s' = gateways s \<and> list_all (\<lambda>g. \<not> replied g) (gateways s')"
proof -
  have m: "main P argv = Inr (run P s)"
    using assms(1,2) by (simp add: main_def)
  have f: "fresh s" using assms(2) by (rule parse_args_fresh)
  note u = run_unreachable [OF assms(3,4,5)]
  have tr: "icmp (snd (run P s)) = [CreateFile True,
             SendEcho (ip (destination s)) (word_of_int (max_hops s)) (word_of_int (timeout s)) None,
             CloseHandle]"
    using u(2) f by (simp add: fresh_def)
  show ?thesis
    apply (rule exI [of _ "snd (run P s)"])
    using u(1,3) f by (simp add: m tr echoes_def sweep_echoes_def fresh_def prod_eq_iff)
qed

theorem unreachable_exit_4_witness:
  "2 \<le> length [''routecheck'', ''-d'', ''10.0.0.1'', ''-gw'', ''10.0.0.2''] \<and>
   parse_args (ref_platform True silent_net)
       (tl [''routecheck'', ''-d'', ''10.0.0.1'', ''-gw'', ''10.0.0.2''])
     = Inr \<lparr>verbose = False,
            destination = \<lparr>hostname = ''10.0.0.1'', ip = 0x0100000A, replied = False\<rparr>,
            gateways = [\<lparr>hostname = ''10.0.0.2'', ip = 0x0200000A, replied = False\<rparr>],
            timeout = 10000, max_hops = 30, cout = [], icmp = []\<rparr> \<and>
   IcmpCreateFile (ref_platform True silent_net) \<and>
   (\<exists>s'. main (ref_platform True silent_net)
            [''routecheck'', ''-d'', ''10.0.0.1'', ''-gw'', ''10.0.0.2''] = Inr (4, s') \<and>
         echoes (icmp s') = [SendEcho 0x0100000A 30 10000 None] \<and>
         sweep_echoes (icmp s') = [] \<and>
         gateways s' = [\<lparr>hostname = ''10.0.0.2'', ip = 0x0200000A, replied = False\<rparr>] \<and>
         list_all (\<lambda>g. \<not> replied g) (gateways s'))"
proof -
  let ?P = "ref_platform True silent_net"
  let ?argv = "[''routecheck'', ''-d'', ''10.0.0.1'', ''-gw'', ''10.0.0.2'']"
  let ?s = "\<lparr>verbose = False,
            destination = \<lparr>hostname = ''10.0.0.1'', ip = 0x0100000A, replied = False\<rparr>,
            gateways = [\<lparr>hostname = ''10.0.0.2'', ip = 0x0200000A, replied = False\<rparr>],
            timeout = 10000, max_hops = 30, cout = [], icmp = []\<rparr>"
  have h1: "2 \<le> length ?argv" by simp
  have h2: "parse_args ?P (tl ?argv) = Inr ?s" by (simp add: parse_eval ref_eval)
  have h3: "hostname (destination ?s) \<noteq> ''''" by simp
  have h4: "IcmpCreateFile ?P" by (simp add: ref_platform_def)
  have h5: "first_probe ?P ?s = None" by (simp add: first_probe_def ref_platform_def silent_net_def)
  from unreachable_exit_4 [OF h1 h2 h3 h4 h5] h1 h2 h4 show ?thesis by simp
qed

text \<open>
  The exit code of a run that returns: 1 without arguments, else 2 when the destination
  has no host name after parsing, else 3 when \<open>IcmpCreateFile\<close> gives no handle, else 4
  when the reachability probe gets no reply, else 0; and with 0 the report is the last
  thing written.
\<close>

lemma exit_code_cases:
  assumes "main P argv = Inr (code, s')"
  shows "code = (if length argv < 2 then 1
                 else if hostname (destination s') = '''' then 2
                 else if \<not> IcmpCreateFile P then 3
                 else if IcmpSendEcho P [CreateFile True] (ip (destination s'))
                           (word_of_int (max_hops s')) (word_of_int (timeout s')) = None then 4
                 else 0) \<and>
         (code = 0 \<longrightarrow> (\<exists>pre. cout s' = pre @ report s'))"
proof (cases "length argv < 2")
  case True
  with assms show ?thesis by (simp add: main_no_args)
next
  case False
  then have "2 \<le> length argv" by simp
  from main_run [OF assms this] obtain s where f: "fresh s" and r: "run P s = (code, s')"
    by blast
  have i: "icmp s = []" using f by (simp add: fresh_def)
  from run_outcome [OF f r] False show ?thesis
    by (auto simp: first_probe_def i)
qed

lemma exit_code_cases_witness:
  "(let P = ref_platform True silent_net; argv = [''routecheck'', ''-d'', ''10.0.0.9''];
        s' = \<lparr>verbose = False,
               destination = \<lparr>hostname = ''10.0.0.9'', ip = 0x0900000A, replied = False\<rparr>,
               gateways = [], timeout = 10000, max_hops = 30,
               cout = [Text ''No gateways specified'', Endl],
               icmp = [CreateFile True, SendEcho 0x0900000A 30 10000 None, CloseHandle]\<rparr>
    in main P argv = Inr (4, s') \<and>
       4 = (if length argv < 2 then 1
            else if hostname (destination s') = '''' then 2
            else if \<not> IcmpCreateFile P then 3
            else if IcmpSendEcho P [CreateFile True] (ip (destination s'))
                      (word_of_int (max_hops s')) (word_of_int (timeout s')) = None then 4
            else (0::int))) \<and>
   (let P = ref_platform True path_net;
        argv = [''routecheck'', ''-d'', ''10.0.0.9'', ''-gw'', ''10.0.0.9'', ''-ttl'', ''x'', ''3''];
        s' = \<lparr>verbose = False,
               destination = \<lparr>hostname = ''10.0.0.9'', ip = 0x0900000A, replied = True\<rparr>,
               gateways = [\<lparr>hostname = ''10.0.0.9'', ip = 0x0900000A, replied = False\<rparr>],
               timeout = 10000, max_hops = 3,
               cout = [Text ''Destination:'', Text ''10.0.0.9'', Text '':replied'', Endl,
                       Text ''Gateway:'', Text ''10.0.0.9'', Text '':'', Text ''no reply'', Endl],
               icmp = [CreateFile True, SendEcho 0x0900000A 3 10000 (Some 0x0900000A),
                       SendEcho 0x0900000A 1 10000 (Some 0x0100A8C0),
                       SendEcho 0x0900000A 2 10000 (Some 0x0500000A), CloseHandle]\<rparr>
    in main P argv = Inr (0, s') \<and>
       0 = (if length argv < 2 then 1
            else if hostname (destination s') = '''' then 2
            else if \<not> IcmpCreateFile P then 3
            else if IcmpSendEcho P [CreateFile True] (ip (destination s'))
                      (word_of_int (max_hops s')) (word_of_int (timeout s')) = None then 4
            else (0::int)) \<and>
       (\<exists>pre. cout s' = pre @ report s'))"
  unfolding Let_def
  using exit_code_cases [OF ex_unreachable] exit_code_cases [OF ex_path] ex_unreachable ex_path
  by simp

text \<open>
  C4. The claim: every execution ends with one of the exit codes 0 to 4, by the
  conditions listed. A run that returns does (\<open>exit_code_cases\<close> above), but a run whose
  parsing reads past the argument vector returns no exit code at all. With the arguments
  \<open>-d 10.0.0.1 -ttl 5\<close>, the usage that the help text describes, the code reads
  \<open>args[4]\<close> of a vector of size 4 (line 105), on every platform. This is the defect
  of C10, seen from the exit code.
\<close>

theorem no_exit_code_when_parsing_faults:
  "main P [''routecheck'', ''-d'', ''10.0.0.1'', ''-ttl'', ''5''] = Inl (OutOfBounds 4) \<and>
   (\<forall>code s'. main P [''routecheck'', ''-d'', ''10.0.0.1'', ''-ttl'', ''5''] \<noteq> Inr (code, s'))"
  by (simp add: main_def parse_eval case_prod_beta)

text \<open>
  C9. When \<open>main\<close> returns 0 or 4 the trace starts with the successful
  \<open>IcmpCreateFile\<close>, ends with \<open>IcmpCloseHandle\<close>, and holds each of them once; when it
  returns 3 the trace is the failed \<open>IcmpCreateFile\<close> alone; with 1 and 2 no call was made.
\<close>

theorem handle_closed_once:
  assumes "main P argv = Inr (code, s')"
  shows "(code = 0 \<or> code = 4 \<longrightarrow>
            hd (icmp s') = CreateFile True \<and> last (icmp s') = CloseHandle \<and>
            count_list (icmp s') CloseHandle = 1 \<and> count_list (icmp s') (CreateFile True) = 1) \<and>
         (code = 3 \<longrightarrow> icmp s' = [CreateFile False]) \<and>
         (code = 1 \<or> code = 2 \<longrightarrow> icmp s' = []) \<and>
         (code = 0 \<or> code = 1 \<or> code = 2 \<or> code = 3 \<or> code = 4)"
proof (cases "length argv < 2")
  case True
  with assms show ?thesis by (auto simp: main_no_args init_state_def)
next
  case False
  then have "2 \<le> length argv" by simp
  from main_run [OF assms this] obtain s where f: "fresh s" and r: "run P s = (code, s')"
    by blast
  from run_outcome [OF f r] show ?thesis
    by (auto simp: count_list_echoes)
qed

theorem handle_closed_once_witness:
  "(let s' = \<lparr>verbose = False,
               destination = \<lparr>hostname = ''10.0.0.9'', ip = 0x0900000A, replied = True\<rparr>,
               gateways = [\<lparr>hostname = ''10.0.0.9'', ip = 0x0900000A, replied = False\<rparr>],
               timeout = 10000, max_hops = 3,
               cout = [Text ''Destination:'', Text ''10.0.0.9'', Text '':replied'', Endl,
                       Text ''Gateway:'', Text ''10.0.0.9'', Text '':'', Text ''no reply'', Endl],
               icmp = [CreateFile True, SendEcho 0x0900000A 3 10000 (Some 0x0900000A),
                       SendEcho 0x0900000A 1 10000 (Some 0x0100A8C0),
                       SendEcho 0x0900000A 2 10000 (Some 0x0500000A), CloseHandle]\<rparr>
    in main (ref_platform True path_net) [''routecheck'', ''-d'', ''10.0.0.9'', ''-gw'', ''10.0.0.9'', ''-ttl'', ''x'', ''3'']
         = Inr (0, s') \<and>
       hd (icmp s') = CreateFile True \<and> last (icmp s') = CloseHandle \<and>
       count_list (icmp s') CloseHandle = 1 \<and> count_list (icmp s') (CreateFile True) = 1) \<and>
   (let s' = \<lparr>verbose = False,
               destination = \<lparr>hostname = ''10.0.0.9'', ip = 0x0900000A, replied = False\<rparr>,
               gateways = [], timeout = 10000, max_hops = 30,
               cout = [Text ''No gateways specified'', Endl],
               icmp = [CreateFile True, SendEcho 0x0900000A 30 10000 None, CloseHandle]\<rparr>
    in main (ref_platform True silent_net) [''routecheck'', ''-d'', ''10.0.0.9''] = Inr (4, s') \<and>
       hd (icmp s') = CreateFile True \<and> last (icmp s') = CloseHandle \<and>
       count_list (icmp s') CloseHandle = 1 \<and> count_list (icmp s') (CreateFile True) = 1) \<and>
   (let s' = \<lparr>verbose = False,
               destination = \<lparr>hostname = ''10.0.0.9'', ip = 0x0900000A, replied = False\<rparr>,
               gateways = [], timeout = 10000, max_hops = 30,
               cout = [Text ''No gateways specified'', Endl],
               icmp = [CreateFile False]\<rparr>
    in main (ref_platform False direct_net) [''routecheck'', ''-d'', ''10.0.0.9''] = Inr (3, s') \<and>
       icmp s' = [CreateFile False])"
  unfolding Let_def
  using handle_closed_once [OF ex_path] handle_closed_once [OF ex_unreachable]
    handle_closed_once [OF ex_no_handle] ex_path ex_unreachable ex_no_handle
  by simp

text \<open>
  C7. After parsing, the flag of the destination and of every gateway is false. The
  gateway loop (from any index, in any state), the hop sweep (from any counter, in any
  state) and the run after parsing leave every node as it was or with its flag set, and
  keep the number and order of the gateways; neither loop touches the destination.
  Observing an address a second time changes no gateway.
\<close>

theorem replied_monotonic:
  "(parse_args P args = Inr s0 \<longrightarrow>
      \<not> replied (destination s0) \<and> list_all (\<lambda>g. \<not> replied g) (gateways s0)) \<and>
   list_all2 node_le (gateways s) (gateways (check_gateways addr i gi s)) \<and>
   destination (check_gateways addr i gi s) = destination s \<and>
   list_all2 node_le (gateways s) (gateways (sweep P i s)) \<and>
   destination (sweep P i s) = destination s \<and>
   list_all2 node_le (gateways s) (gateways (snd (run P s))) \<and>
   node_le (destination s) (destination (snd (run P s))) \<and>
   gateways (check_gateways addr j 0 (check_gateways addr i 0 s))
     = gateways (check_gateways addr i 0 s)"
proof -
  have "parse_args P args = Inr s0 \<longrightarrow>
      \<not> replied (destination s0) \<and> list_all (\<lambda>g. \<not> replied g) (gateways s0)"
    using parse_args_fresh [of P args s0] by (simp add: fresh_def)
  moreover have "gateways (check_gateways addr j 0 (check_gateways addr i 0 s))
     = gateways (check_gateways addr i 0 s)"
    by (simp add: gateways_check_gateways observe_idem)
  ultimately show ?thesis
    by (simp add: check_gateways_node_le sweep_node_le run_node_le check_gateways_fields
          sweep_fields)
qed

theorem replied_monotonic_witness:
  "(let P = ref_platform True path_net;
        s0 = \<lparr>verbose = False,
               destination = \<lparr>hostname = ''10.0.0.9'', ip = 0x0900000A, replied = False\<rparr>,
               gateways = [\<lparr>hostname = ''10.0.0.5'', ip = 0x0500000A, replied = False\<rparr>],
               timeout = 10000, max_hops = 30, cout = [], icmp = []\<rparr>;
        s = s0\<lparr>gateways := [\<lparr>hostname = ''10.0.0.5'', ip = 0x0500000A, replied = True\<rparr>,
                              \<lparr>hostname = ''10.0.0.7'', ip = 0x0700000A, replied = False\<rparr>]\<rparr>
    in parse_args P [''-d'', ''10.0.0.9'', ''-gw'', ''10.0.0.5''] = Inr s0 \<and>
       \<not> replied (destination s0) \<and> list_all (\<lambda>g. \<not> replied g) (gateways s0) \<and>
       list_all2 node_le (gateways s) (gateways (check_gateways 0x0500000A 1 0 s)) \<and>
       gateways (check_gateways 0x0500000A 1 0 s) = gateways s \<and>
       list_all2 node_le (gateways s) (gateways (sweep P 1 s)) \<and>
       list_all2 node_le (gateways s) (gateways (snd (run P s))) \<and>
       node_le (destination s) (destination (snd (run P s))))"
proof -
  let ?P = "ref_platform True path_net"
  let ?init = "\<lparr>verbose = False,
               destination = \<lparr>hostname = ''10.0.0.9'', ip = 0x0900000A, replied = False\<rparr>,
               gateways = [\<lparr>hostname = ''10.0.0.5'', ip = 0x0500000A, replied = False\<rparr>],
               timeout = 10000, max_hops = 30, cout = [], icmp = []\<rparr>"
  let ?seen = "?init\<lparr>gateways := [\<lparr>hostname = ''10.0.0.5'', ip = 0x0500000A, replied = True\<rparr>,
                              \<lparr>hostname = ''10.0.0.7'', ip = 0x0700000A, replied = False\<rparr>]\<rparr>"
  have p: "parse_args ?P [''-d'', ''10.0.0.9'', ''-gw'', ''10.0.0.5''] = Inr ?init"
    by (simp add: parse_eval ref_eval)
  have g: "gateways (check_gateways 0x0500000A 1 0 ?seen) = gateways ?seen"
    by (simp add: check_gateways.simps vprint_def)
  from replied_monotonic [of ?P "[''-d'', ''10.0.0.9'', ''-gw'', ''10.0.0.5'']" ?init ?seen
      "0x0500000A" 1 0 2] p g
  show ?thesis unfolding Let_def by simp
qed










end
